theory Spec2Isabelle
  imports Complex_Main
begin

section \<open>Tensors and the tensor runtime\<close>

text \<open>
  The model of \<^verbatim>\<open>src/tft_model.py\<close>. A tensor is its shape together with its elements in
  row-major order, which is what a contiguous torch tensor holds; a well-formed tensor has
  as many elements as the product of its shape. Floating-point numbers are idealised as
  reals. Every exception of the source and of the tensor runtime is a value of \<open>error\<close>.
\<close>

datatype error = ValueError | TypeError | RuntimeError | IndexError | AttributeError

datatype 'a tensor = Tensor (shape: "nat list") (data: "'a list")

definition wf_tensor :: "'a tensor \<Rightarrow> bool" where
  "wf_tensor t = (length (data t) = prod_list (shape t))"

definition numel :: "'a tensor \<Rightarrow> nat" where
  "numel t = prod_list (shape t)"

definition ebind :: "error + 'a \<Rightarrow> ('a \<Rightarrow> error + 'b) \<Rightarrow> error + 'b" where
  "ebind m f = (case m of Inl e \<Rightarrow> Inl e | Inr v \<Rightarrow> f v)"

fun mapE :: "('a \<Rightarrow> error + 'b) \<Rightarrow> 'a list \<Rightarrow> error + 'b list" where
  "mapE f [] = Inr []"
| "mapE f (x # xs) = ebind (f x) (\<lambda>y. ebind (mapE f xs) (\<lambda>ys. Inr (y # ys)))"

text \<open>The \<open>k\<close>-th block of \<open>n\<close> consecutive elements of a flat list.\<close>

definition block :: "nat \<Rightarrow> nat \<Rightarrow> 'a list \<Rightarrow> 'a list" where
  "block n k xs = take n (drop (k * n) xs)"

subsection \<open>\<^verbatim>\<open>Tensor.size(i)\<close>\<close>

text \<open>Python indexing of the shape: a negative index counts from the end, an index out of
  range raises IndexError.\<close>

definition size_at :: "'a tensor \<Rightarrow> int \<Rightarrow> error + nat" where
  "size_at t i =
     (let n = int (length (shape t)); j = (if i < 0 then n + i else i)
      in if 0 \<le> j \<and> j < n then Inr (shape t ! nat j) else Inl IndexError)"

subsection \<open>\<^verbatim>\<open>Tensor.view\<close>\<close>

text \<open>
  \<^verbatim>\<open>view\<close> keeps the elements and replaces the shape. One entry of the requested shape may
  be \<open>-1\<close> and is inferred from the number of elements; the runtime refuses a second
  \<open>-1\<close>, an entry below \<open>-1\<close>, a shape whose size does not fit, and a \<open>-1\<close> beside a
  zero-sized dimension (the inferred size would be ambiguous).
\<close>

definition infer_size :: "int list \<Rightarrow> nat \<Rightarrow> error + nat list" where
  "infer_size req n =
     (if list_ex (\<lambda>d. d < -1) req \<or> 1 < length (filter (\<lambda>d. d = -1) req) then Inl RuntimeError
      else
        let newsize = prod_list (map nat (filter (\<lambda>d. d \<noteq> -1) req));
            infer = list_ex (\<lambda>d. d = -1) req
        in if n = newsize \<or> (infer \<and> 0 < newsize \<and> n mod newsize = 0)
           then (if infer
                 then (if newsize = 0 then Inl RuntimeError
                       else Inr (map (\<lambda>d. if d = -1 then n div newsize else nat d) req))
                 else Inr (map nat req))
           else Inl RuntimeError)"

definition view :: "'a tensor \<Rightarrow> int list \<Rightarrow> error + 'a tensor" where
  "view t req = ebind (infer_size req (numel t)) (\<lambda>s. Inr (Tensor s (data t)))"

subsection \<open>Elementwise arithmetic with broadcasting\<close>

text \<open>Shapes are aligned at the last axis; \<open>bshape\<close> works on the reversed shapes.\<close>

fun bshape :: "nat list \<Rightarrow> nat list \<Rightarrow> nat list option" where
  "bshape [] ys = Some ys"
| "bshape xs [] = Some xs"
| "bshape (x # xs) (y # ys) =
     (if x = y \<or> y = 1 then map_option ((#) x) (bshape xs ys)
      else if x = 1 then map_option ((#) y) (bshape xs ys)
      else None)"

definition broadcast_shapes :: "nat list \<Rightarrow> nat list \<Rightarrow> nat list option" where
  "broadcast_shapes s1 s2 = map_option rev (bshape (rev s1) (rev s2))"

text \<open>\<open>expand r s xs\<close>: the elements \<open>xs\<close> of a tensor of shape \<open>s\<close> repeated to the shape \<open>r\<close>
  of the same rank, along every axis where \<open>s\<close> has size 1.\<close>

fun expand :: "nat list \<Rightarrow> nat list \<Rightarrow> 'a list \<Rightarrow> 'a list" where
  "expand (n # r) (d # s) xs =
     (if d = n then concat (map (\<lambda>k. expand r s (block (prod_list s) k xs)) [0..<n])
      else concat (replicate n (expand r s xs)))"
| "expand r s xs = xs"

definition expand_to :: "nat list \<Rightarrow> 'a tensor \<Rightarrow> 'a list" where
  "expand_to r t = expand r (replicate (length r - length (shape t)) 1 @ shape t) (data t)"

definition binop :: "('a \<Rightarrow> 'a \<Rightarrow> 'a) \<Rightarrow> 'a tensor \<Rightarrow> 'a tensor \<Rightarrow> error + 'a tensor" where
  "binop f a b =
     (if shape a = shape b then Inr (Tensor (shape a) (map2 f (data a) (data b)))
      else case broadcast_shapes (shape a) (shape b) of
             None \<Rightarrow> Inl RuntimeError
           | Some r \<Rightarrow> Inr (Tensor r (map2 f (expand_to r a) (expand_to r b))))"

definition tmap :: "('a \<Rightarrow> 'b) \<Rightarrow> 'a tensor \<Rightarrow> 'b tensor" where
  "tmap f t = Tensor (shape t) (map f (data t))"

text \<open>\<^verbatim>\<open>torch.zeros\<close>\<close>

definition zeros :: "nat list \<Rightarrow> real tensor" where
  "zeros s = Tensor s (replicate (prod_list s) 0)"

definition tadd :: "real tensor \<Rightarrow> real tensor \<Rightarrow> error + real tensor" where
  "tadd = binop (+)"

definition tsub :: "real tensor \<Rightarrow> real tensor \<Rightarrow> error + real tensor" where
  "tsub = binop (-)"

definition tmul :: "real tensor \<Rightarrow> real tensor \<Rightarrow> error + real tensor" where
  "tmul = binop (*)"

subsection \<open>\<^verbatim>\<open>torch.max\<close> and \<^verbatim>\<open>torch.sum\<close>\<close>

text \<open>
  The second positional argument of \<^verbatim>\<open>torch.max\<close> is either a tensor (\<^verbatim>\<open>max(input, other)\<close>,
  the elementwise maximum) or an integer (\<^verbatim>\<open>max(input, dim)\<close>, a reduction). A Python float
  matches neither signature and the call raises TypeError. Only the two kinds of argument
  that a caller can write for the elementwise form are modelled.
\<close>

datatype py_arg = PyFloat real | PyTensor "real tensor"

definition torch_max :: "real tensor \<Rightarrow> py_arg \<Rightarrow> error + real tensor" where
  "torch_max input other =
     (case other of PyTensor t \<Rightarrow> binop max input t | PyFloat v \<Rightarrow> Inl TypeError)"

text \<open>\<^verbatim>\<open>torch.sum(t, axis=-1)\<close>: the sums of the rows along the last axis; a 0-dimensional
  tensor is returned as it is.\<close>

definition sum_last :: "real tensor \<Rightarrow> real tensor" where
  "sum_last t =
     (if shape t = [] then t
      else Tensor (butlast (shape t))
             (map (\<lambda>k. sum_list (block (last (shape t)) k (data t)))
                  [0..<prod_list (butlast (shape t))]))"

section \<open>Quantile loss\<close>

definition pytorch_quantile_loss :: "real tensor \<Rightarrow> real tensor \<Rightarrow> real \<Rightarrow> error + real tensor" where
  "pytorch_quantile_loss y y_pred quantile =
     (if quantile < 0 \<or> quantile > 1 then Inl ValueError
      else
        ebind (tsub y y_pred) (\<lambda>prediction_underflow.
        ebind (torch_max prediction_underflow (PyFloat 0)) (\<lambda>m1.
        ebind (torch_max (tmap uminus prediction_underflow) (PyFloat 0)) (\<lambda>m2.
        ebind (tadd (tmap (\<lambda>v. quantile * v) m1) (tmap (\<lambda>v. (1 - quantile) * v) m2)) (\<lambda>q_loss.
        Inr (sum_last q_loss))))))"

section \<open>Indexing, slicing and concatenation\<close>

definition list_get :: "'a list \<Rightarrow> nat \<Rightarrow> error + 'a" where
  "list_get xs i = (if i < length xs then Inr (xs ! i) else Inl IndexError)"

text \<open>
  The arrays the model indexes are 3-dimensional (batch, time, feature), as the source's
  comments require. Indexing three axes of an array of lower rank raises IndexError; arrays
  of higher rank are outside the model and are refused in the same way.
\<close>

text \<open>\<^verbatim>\<open>x[:, :, i]\<close>\<close>

definition select_last :: "'a tensor \<Rightarrow> nat \<Rightarrow> error + 'a tensor" where
  "select_last x i =
     (case shape x of
        [b, t, f] \<Rightarrow>
          if i < f then Inr (Tensor [b, t] (map (\<lambda>k. data x ! (k * f + i)) [0..<b * t]))
          else Inl IndexError
      | _ \<Rightarrow> Inl IndexError)"

text \<open>\<^verbatim>\<open>x[:, 0, i]\<close>\<close>

definition select_first_step :: "'a tensor \<Rightarrow> nat \<Rightarrow> error + 'a tensor" where
  "select_first_step x i =
     (case shape x of
        [b, t, f] \<Rightarrow>
          if 0 < t \<and> i < f then Inr (Tensor [b] (map (\<lambda>k. data x ! (k * (t * f) + i)) [0..<b]))
          else Inl IndexError
      | _ \<Rightarrow> Inl IndexError)"

text \<open>\<^verbatim>\<open>x[:, :n, :]\<close> and \<^verbatim>\<open>x[:, n:, :]\<close> for \<open>n \<ge> 0\<close>: a slice bound beyond the axis is clipped.\<close>

definition slice_time_to :: "'a tensor \<Rightarrow> nat \<Rightarrow> error + 'a tensor" where
  "slice_time_to x n =
     (case shape x of
        [b, t, f] \<Rightarrow>
          Inr (Tensor [b, min n t, f]
                 (concat (map (\<lambda>k. take (min n t * f) (block (t * f) k (data x))) [0..<b])))
      | _ \<Rightarrow> Inl IndexError)"

definition slice_time_from :: "'a tensor \<Rightarrow> nat \<Rightarrow> error + 'a tensor" where
  "slice_time_from x n =
     (case shape x of
        [b, t, f] \<Rightarrow>
          Inr (Tensor [b, t - n, f]
                 (concat (map (\<lambda>k. drop (min n t * f) (block (t * f) k (data x))) [0..<b])))
      | _ \<Rightarrow> Inl IndexError)"

text \<open>\<^verbatim>\<open>x[n:, :, :]\<close>\<close>

definition slice_from :: "'a tensor \<Rightarrow> nat \<Rightarrow> error + 'a tensor" where
  "slice_from x n =
     (case shape x of
        [l, b, h] \<Rightarrow> Inr (Tensor [l - n, b, h] (drop (min n l * (b * h)) (data x)))
      | _ \<Rightarrow> Inl IndexError)"

text \<open>
  \<^verbatim>\<open>torch.cat(ts, dim)\<close>: the list must not be empty, \<open>dim\<close> must be an axis, and the shapes
  must agree on every other axis. The result holds, for each index of the axes before
  \<open>dim\<close>, the corresponding blocks of the tensors one after the other.
\<close>

definition torch_cat :: "'a tensor list \<Rightarrow> nat \<Rightarrow> error + 'a tensor" where
  "torch_cat ts d =
     (case ts of
        [] \<Rightarrow> Inl RuntimeError
      | t0 # _ \<Rightarrow>
          if length (shape t0) \<le> d then Inl IndexError
          else if list_ex (\<lambda>t. length (shape t) \<noteq> length (shape t0)
                            \<or> take d (shape t) \<noteq> take d (shape t0)
                            \<or> drop (Suc d) (shape t) \<noteq> drop (Suc d) (shape t0)) ts
          then Inl RuntimeError
          else Inr (Tensor
                 ((shape t0)[d := sum_list (map (\<lambda>t. shape t ! d) ts)])
                 (concat (map (\<lambda>k. concat (map (\<lambda>t. block (prod_list (drop d (shape t))) k (data t)) ts))
                              [0..<prod_list (take d (shape t0))]))))"

text \<open>\<^verbatim>\<open>Tensor.long()\<close>: conversion to integers rounds towards zero.\<close>

definition trunc :: "real \<Rightarrow> int" where
  "trunc v = (if 0 \<le> v then \<lfloor>v\<rfloor> else \<lceil>v\<rceil>)"

definition long :: "real tensor \<Rightarrow> int tensor" where
  "long t = tmap trunc t"

section \<open>The layers of the tensor runtime\<close>

text \<open>
  \<^verbatim>\<open>nn.Linear\<close>: \<open>y = x W\<^sup>T + b\<close> on every row along the last axis. The runtime refuses an
  input whose last axis is not \<open>in_features\<close> long.
\<close>

record Linear =
  in_features :: nat
  out_features :: nat
  weight :: "real list list"
  bias :: "real list"

definition wf_Linear :: "Linear \<Rightarrow> bool" where
  "wf_Linear l =
     (length (weight l) = out_features l \<and> length (bias l) = out_features l
      \<and> list_all (\<lambda>w. length w = in_features l) (weight l))"

definition dot :: "real list \<Rightarrow> real list \<Rightarrow> real" where
  "dot w x = sum_list (map2 (*) w x)"

definition Linear_row :: "Linear \<Rightarrow> real list \<Rightarrow> real list" where
  "Linear_row l x = map2 (\<lambda>w b. dot w x + b) (weight l) (bias l)"

definition Linear_forward :: "Linear \<Rightarrow> real tensor \<Rightarrow> error + real tensor" where
  "Linear_forward l x =
     (if shape x = [] \<or> last (shape x) \<noteq> in_features l then Inl RuntimeError
      else Inr (Tensor (butlast (shape x) @ [out_features l])
                  (concat (map (\<lambda>k. Linear_row l (block (in_features l) k (data x)))
                               [0..<prod_list (butlast (shape x))]))))"

text \<open>\<^verbatim>\<open>nn.Embedding\<close>: a table lookup; a code outside the table raises IndexError.\<close>

record Embedding =
  embedding_dim :: nat
  table :: "real list list"

definition Embedding_forward :: "Embedding \<Rightarrow> int tensor \<Rightarrow> error + real tensor" where
  "Embedding_forward e idx =
     (if list_ex (\<lambda>i. i < 0 \<or> int (length (table e)) \<le> i) (data idx) then Inl IndexError
      else Inr (Tensor (shape idx @ [embedding_dim e])
                  (concat (map (\<lambda>i. table e ! nat i) (data idx)))))"

text \<open>\<^verbatim>\<open>nn.ELU\<close> (with \<open>alpha = 1\<close>) and \<^verbatim>\<open>nn.Sigmoid\<close>.\<close>

definition elu :: "real \<Rightarrow> real" where
  "elu v = (if 0 < v then v else exp v - 1)"

definition sigmoid :: "real \<Rightarrow> real" where
  "sigmoid v = 1 / (1 + exp (- v))"

text \<open>
  \<^verbatim>\<open>nn.BatchNorm1d\<close> and \<^verbatim>\<open>nn.Dropout\<close> in evaluation mode: batch normalisation uses its
  running statistics, dropout is the identity. The model is of evaluation mode throughout.
  Batch normalisation is reached through \<open>TimeDistributed\<close> only, which hands it tensors of
  rank at most 2; it refuses every rank but 2 there.
\<close>

record BatchNorm1d =
  num_features :: nat
  running_mean :: "real list"
  running_var :: "real list"
  bn_weight :: "real list"
  bn_bias :: "real list"
  eps :: real

definition BatchNorm1d_row :: "BatchNorm1d \<Rightarrow> real list \<Rightarrow> real list" where
  "BatchNorm1d_row n x =
     map (\<lambda>j. (x ! j - running_mean n ! j) / sqrt (running_var n ! j + eps n) * bn_weight n ! j
               + bn_bias n ! j)
         [0..<num_features n]"

definition BatchNorm1d_forward :: "BatchNorm1d \<Rightarrow> real tensor \<Rightarrow> error + real tensor" where
  "BatchNorm1d_forward n x =
     (case shape x of
        [r, c] \<Rightarrow>
          if c = num_features n
          then Inr (Tensor [r, c] (concat (map (\<lambda>k. BatchNorm1d_row n (block c k (data x))) [0..<r])))
          else Inl RuntimeError
      | _ \<Rightarrow> Inl ValueError)"

definition dropout :: "real tensor \<Rightarrow> real tensor" where
  "dropout x = x"

section \<open>TimeDistributed\<close>

definition TimeDistributed_forward ::
    "('a tensor \<Rightarrow> error + 'b tensor) \<Rightarrow> bool \<Rightarrow> 'a tensor \<Rightarrow> error + 'b tensor" where
  "TimeDistributed_forward f batch_first x =
     (if length (shape x) \<le> 2 then f x
      else
        ebind (size_at x (-1)) (\<lambda>n.
        ebind (view x [-1, int n]) (\<lambda>x_reshape.
        ebind (f x_reshape) (\<lambda>y.
        if batch_first
        then ebind (size_at x 0) (\<lambda>a. ebind (size_at y (-1)) (\<lambda>c. view y [int a, -1, int c]))
        else ebind (size_at x 1) (\<lambda>b. ebind (size_at y (-1)) (\<lambda>c. view y [-1, int b, int c]))))))"

section \<open>Gated linear unit and gated residual network\<close>

record GLU =
  glu_fc1 :: Linear
  glu_fc2 :: Linear

definition GLU_forward :: "GLU \<Rightarrow> real tensor \<Rightarrow> error + real tensor" where
  "GLU_forward g x =
     ebind (Linear_forward (glu_fc1 g) x) (\<lambda>a.
     ebind (Linear_forward (glu_fc2 g) x) (\<lambda>x'.
     tmul (tmap sigmoid a) x'))"

text \<open>
  The fields of \<^verbatim>\<open>GatedResidualNetwork\<close> that \<^verbatim>\<open>forward\<close> reads. \<open>context_fc\<close> (the attribute \<^verbatim>\<open>context\<close>) is \<open>None\<close> when
  the network was built without \<^verbatim>\<open>hidden_context_size\<close>: the attribute does not exist then
  and reading it raises AttributeError. Each of \<open>fc1\<close>, \<open>context_fc\<close>, \<open>fc2\<close>, \<open>bn\<close> and \<open>gate\<close> is
  wrapped in \<open>TimeDistributed\<close> in its default mode.
\<close>

record GatedResidualNetwork =
  fc1 :: Linear
  context_fc :: "Linear option"
  fc2 :: Linear
  bn :: BatchNorm1d
  gate :: GLU

definition GatedResidualNetwork_forward ::
    "GatedResidualNetwork \<Rightarrow> real tensor \<Rightarrow> real tensor option \<Rightarrow> error + real tensor" where
  "GatedResidualNetwork_forward g x ctx =
     ebind (TimeDistributed_forward (Linear_forward (fc1 g)) False x) (\<lambda>x1.
     ebind (case ctx of
              None \<Rightarrow> Inr x1
            | Some c \<Rightarrow>
                (case context_fc g of
                   None \<Rightarrow> Inl AttributeError
                 | Some l \<Rightarrow>
                     ebind (TimeDistributed_forward (Linear_forward l) False c) (\<lambda>c'. tadd x1 c')))
       (\<lambda>x2.
     ebind (TimeDistributed_forward (Linear_forward (fc2 g)) False (tmap elu x2)) (\<lambda>x3.
     ebind (TimeDistributed_forward (GLU_forward (gate g)) False (dropout x3)) (\<lambda>x4.
     ebind (tadd x4 x) (\<lambda>x5.
     TimeDistributed_forward (BatchNorm1d_forward (bn g)) False x5)))))"

section \<open>The attention mask\<close>

text \<open>Floating-point values with the infinities, for the additive attention mask.\<close>

datatype xreal = Fin real | PInf | MInf

definition ones :: "nat \<Rightarrow> nat \<Rightarrow> real tensor" where
  "ones m n = Tensor [m, n] (replicate (m * n) 1)"

text \<open>\<^verbatim>\<open>torch.triu\<close> and \<^verbatim>\<open>transpose(0, 1)\<close> of a matrix, the only rank they are applied to.\<close>

definition triu :: "real tensor \<Rightarrow> error + real tensor" where
  "triu t =
     (case shape t of
        [m, n] \<Rightarrow>
          Inr (Tensor [m, n]
                 (map2 (\<lambda>k v. if k div n \<le> k mod n then v else 0) [0..<length (data t)] (data t)))
      | _ \<Rightarrow> Inl RuntimeError)"

definition transpose01 :: "'a tensor \<Rightarrow> error + 'a tensor" where
  "transpose01 t =
     (case shape t of
        [m, n] \<Rightarrow> Inr (Tensor [n, m] (map (\<lambda>k. data t ! ((k mod m) * n + k div m)) [0..<n * m]))
      | _ \<Rightarrow> Inl IndexError)"

text \<open>\<^verbatim>\<open>t == c\<close> for a number \<open>c\<close>; on a boolean tensor \<open>True\<close> counts as 1 and \<open>False\<close> as 0.\<close>

definition eq_scalar :: "real tensor \<Rightarrow> real \<Rightarrow> bool tensor" where
  "eq_scalar t c = tmap (\<lambda>v. v = c) t"

definition bool_eq_scalar :: "bool tensor \<Rightarrow> real \<Rightarrow> bool tensor" where
  "bool_eq_scalar t c = tmap (\<lambda>b. (if b then 1 else 0) = c) t"

text \<open>\<^verbatim>\<open>Tensor.float()\<close> of a boolean tensor.\<close>

definition float_of_bool :: "bool tensor \<Rightarrow> xreal tensor" where
  "float_of_bool t = tmap (\<lambda>b. Fin (if b then 1 else 0)) t"

text \<open>\<^verbatim>\<open>Tensor.masked_fill(mask, value)\<close>: the mask is broadcast to the shape of the tensor.\<close>

definition masked_fill :: "'a tensor \<Rightarrow> bool tensor \<Rightarrow> 'a \<Rightarrow> error + 'a tensor" where
  "masked_fill t msk v =
     (if shape msk = shape t
      then Inr (Tensor (shape t) (map2 (\<lambda>x b. if b then v else x) (data t) (data msk)))
      else case broadcast_shapes (shape t) (shape msk) of
             None \<Rightarrow> Inl RuntimeError
           | Some r \<Rightarrow>
               if r = shape t
               then Inr (Tensor r (map2 (\<lambda>x b. if b then v else x) (data t) (expand_to r msk)))
               else Inl RuntimeError)"

definition generate_square_subsequent_mask :: "nat \<Rightarrow> error + xreal tensor" where
  "generate_square_subsequent_mask sz =
     ebind (triu (ones sz sz)) (\<lambda>u.
     ebind (transpose01 (eq_scalar u 1)) (\<lambda>msk.
     ebind (masked_fill (float_of_bool msk) (bool_eq_scalar msk 0) MInf) (\<lambda>m1.
     masked_fill m1 (bool_eq_scalar msk 1) (Fin 0))))"

section \<open>The Temporal Fusion Transformer\<close>

text \<open>
  \<^verbatim>\<open>nn.LSTM\<close> and \<^verbatim>\<open>nn.MultiheadAttention\<close> belong to the tensor runtime. The model takes
  them as functions: a recurrent layer maps an input sequence and an initial pair
  (hidden state, cell state) to its output sequence and final pair; the attention layer
  maps query, key, value and the additive mask to the attended output and the attention
  weights. Either may raise.
\<close>

type_synonym LSTM =
  "real tensor \<Rightarrow> real tensor \<times> real tensor \<Rightarrow> error + (real tensor \<times> (real tensor \<times> real tensor))"

type_synonym MultiheadAttention =
  "real tensor \<Rightarrow> real tensor \<Rightarrow> real tensor \<Rightarrow> xreal tensor \<Rightarrow> error + (real tensor \<times> real tensor)"

text \<open>
  The attributes of \<^verbatim>\<open>TFT\<close> that its methods read. The layers of
  \<open>time_varying_embedding_layers\<close>, \<open>time_varying_linear_layers\<close> and \<open>output_layer\<close> are wrapped
  in \<open>TimeDistributed\<close> with \<^verbatim>\<open>batch_first=True\<close>; the wrapping is written where they are
  called.
\<close>

record TFT =
  batch_size :: nat
  static_variables :: nat
  encode_length :: nat
  time_varying_categoical_variables :: nat
  time_varying_real_variables :: nat
  hidden_size :: nat
  lstm_layers :: nat
  static_embedding_layers :: "Embedding list"
  time_varying_embedding_layers :: "Embedding list"
  time_varying_linear_layers :: "Linear list"
  lstm_encoder :: LSTM
  lstm_decoder :: LSTM
  static_enrichment :: GatedResidualNetwork
  pos_wise_ff :: GatedResidualNetwork
  multihead_attn :: MultiheadAttention
  output_layer :: Linear

text \<open>The input batch: the dictionary with the keys \<^verbatim>\<open>identifier\<close> (the field \<open>ident\<close>) and
  \<^verbatim>\<open>inputs\<close>.\<close>

record batch =
  ident :: "real tensor"
  inputs :: "real tensor"

definition init_hidden :: "'z TFT_scheme \<Rightarrow> real tensor" where
  "init_hidden m =
     Tensor [lstm_layers m, batch_size m, hidden_size m]
       (replicate (lstm_layers m * batch_size m * hidden_size m) 0)"

definition apply_embedding :: "'z TFT_scheme \<Rightarrow> real tensor \<Rightarrow> real tensor \<Rightarrow> error + real tensor" where
  "apply_embedding m x static_embedding =
     ebind (mapE (\<lambda>i.
              ebind (list_get (time_varying_linear_layers m) i) (\<lambda>layer.
              ebind (select_last x i) (\<lambda>col.
              ebind (size_at x 0) (\<lambda>b.
              ebind (view col [int b, -1, 1]) (\<lambda>v.
              TimeDistributed_forward (Linear_forward layer) True v)))))
            [0..<time_varying_real_variables m]) (\<lambda>time_varying_real_vectors.
     ebind (torch_cat time_varying_real_vectors 2) (\<lambda>time_varying_real_embedding.
     ebind (mapE (\<lambda>i.
              ebind (list_get (time_varying_embedding_layers m) i) (\<lambda>layer.
              ebind (select_last x (time_varying_real_variables m + i)) (\<lambda>col.
              ebind (size_at x 0) (\<lambda>b.
              ebind (view col [int b, -1, 1]) (\<lambda>v.
              TimeDistributed_forward (Embedding_forward layer) True (long v))))))
            [0..<time_varying_categoical_variables m]) (\<lambda>time_varying_categoical_vectors.
     ebind (torch_cat time_varying_categoical_vectors 2) (\<lambda>time_varying_categoical_embedding.
     ebind (size_at time_varying_categoical_embedding 1) (\<lambda>n1.
     ebind (torch_cat (replicate n1 static_embedding) 0) (\<lambda>repeated.
     ebind (size_at time_varying_categoical_embedding 0) (\<lambda>n0.
     ebind (view repeated [int n0, int n1, -1]) (\<lambda>static_embedding'.
     ebind (torch_cat [static_embedding', time_varying_categoical_embedding,
                       time_varying_real_embedding] 2) (\<lambda>embeddings.
     ebind (size_at x 0) (\<lambda>b.
     ebind (size_at embeddings 2) (\<lambda>c.
     view embeddings [-1, int b, int c])))))))))))"

definition encode ::
    "'z TFT_scheme \<Rightarrow> real tensor \<Rightarrow> real tensor option \<Rightarrow> error + (real tensor \<times> real tensor)" where
  "encode m x hidden =
     (let hidden = (case hidden of None \<Rightarrow> init_hidden m | Some h \<Rightarrow> h)
      in ebind (lstm_encoder m x (hidden, hidden)) (\<lambda>(output, (hidden, cell)). Inr (output, hidden)))"

definition decode ::
    "'z TFT_scheme \<Rightarrow> real tensor \<Rightarrow> real tensor option \<Rightarrow> error + (real tensor \<times> real tensor)" where
  "decode m x hidden =
     (let hidden = (case hidden of None \<Rightarrow> init_hidden m | Some h \<Rightarrow> h)
      in ebind (lstm_decoder m x (hidden, hidden)) (\<lambda>(output, (hidden, cell)). Inr (output, hidden)))"

text \<open>The 5-tuple that \<^verbatim>\<open>forward\<close> returns: output, encoder output, decoder output, attended
  output and attention weights.\<close>

type_synonym forward_result =
  "real tensor \<times> real tensor \<times> real tensor \<times> real tensor \<times> real tensor"

definition forward :: "'z TFT_scheme \<Rightarrow> batch \<Rightarrow> error + forward_result" where
  "forward m x =
     ebind (mapE (\<lambda>i.
              ebind (list_get (static_embedding_layers m) i) (\<lambda>layer.
              ebind (select_first_step (ident x) i) (\<lambda>codes.
              Embedding_forward layer (long codes))))
            [0..<static_variables m]) (\<lambda>embedding_vectors.
     ebind (torch_cat embedding_vectors 1) (\<lambda>static_embedding.
     ebind (slice_time_to (inputs x) (encode_length m)) (\<lambda>encoder_window.
     ebind (apply_embedding m encoder_window static_embedding) (\<lambda>embeddings_encoder.
     ebind (slice_time_from (inputs x) (encode_length m)) (\<lambda>decoder_window.
     ebind (apply_embedding m decoder_window static_embedding) (\<lambda>embeddings_decoder.
     ebind (encode m embeddings_encoder None) (\<lambda>(encoder_output, hidden).
     ebind (decode m embeddings_decoder (Some hidden)) (\<lambda>(decoder_output, _).
     ebind (torch_cat [encoder_output, decoder_output] 0) (\<lambda>lstm_output.
     ebind (size_at lstm_output 0) (\<lambda>n0.
     ebind (torch_cat (replicate n0 static_embedding) 0) (\<lambda>repeated.
     ebind (size_at lstm_output 1) (\<lambda>n1.
     ebind (view repeated [int n0, int n1, -1]) (\<lambda>static_embedding'.
     ebind (GatedResidualNetwork_forward (static_enrichment m) lstm_output (Some static_embedding'))
       (\<lambda>attn_input.
     ebind (size_at attn_input 0) (\<lambda>sz.
     ebind (generate_square_subsequent_mask sz) (\<lambda>msk.
     ebind (multihead_attn m attn_input attn_input lstm_output msk)
       (\<lambda>(attn_output, attn_output_weights).
     ebind (slice_from attn_output (encode_length m)) (\<lambda>attn_output.
     ebind (view attn_output [int (batch_size m), -1, int (hidden_size m)]) (\<lambda>v.
     ebind (TimeDistributed_forward (Linear_forward (output_layer m)) True v) (\<lambda>output.
     Inr (output, encoder_output, decoder_output, attn_output, attn_output_weights)))))))))))))))))))))"

text \<open>The entry \<open>(i, j)\<close> of a matrix.\<close>

definition entry2 :: "'a tensor \<Rightarrow> nat \<Rightarrow> nat \<Rightarrow> 'a" where
  "entry2 t i j = data t ! (i * (shape t ! 1) + j)"

text \<open>The entry \<open>(i, j, k)\<close> of a 3-dimensional array.\<close>

definition entry3 :: "'a tensor \<Rightarrow> nat \<Rightarrow> nat \<Rightarrow> nat \<Rightarrow> 'a" where
  "entry3 t i j k = data t ! ((i * (shape t ! 1) + j) * (shape t ! 2) + k)"

section \<open>A small model for concrete runs\<close>

text \<open>
  Stand-ins for the two layers taken from the runtime. The recurrent stand-in checks the
  shapes of its initial states against the batch and the hidden size, and returns an output
  sequence of zeros with the hidden size as last axis and final states that differ from
  each other; the attention stand-in returns its query and zero weights.
\<close>

definition stub_lstm :: "nat \<Rightarrow> LSTM" where
  "stub_lstm hs x st =
     (case shape x of
        [s, b, f] \<Rightarrow>
          if shape (snd st) = shape (fst st) \<and> length (shape (fst st)) = 3
             \<and> drop 1 (shape (fst st)) = [b, hs]
          then Inr (Tensor [s, b, hs] (replicate (s * b * hs) 0),
                    (tmap (\<lambda>v. v + 1) (fst st), tmap (\<lambda>v. v + 2) (snd st)))
          else Inl RuntimeError
      | _ \<Rightarrow> Inl RuntimeError)"

definition stub_attn :: MultiheadAttention where
  "stub_attn q k v msk =
     (case shape q of
        [l, n, e] \<Rightarrow> Inr (q, Tensor [n, l, l] (replicate (n * l * l) 0))
      | _ \<Rightarrow> Inl RuntimeError)"

definition example_grn :: GatedResidualNetwork where
  "example_grn =
     \<lparr>fc1 = \<lparr>in_features = 1, out_features = 1, weight = [[0]], bias = [0]\<rparr>,
      context_fc = Some \<lparr>in_features = 1, out_features = 1, weight = [[0]], bias = [1]\<rparr>,
      fc2 = \<lparr>in_features = 1, out_features = 1, weight = [[1]], bias = [0]\<rparr>,
      bn = \<lparr>num_features = 1, running_mean = [0], running_var = [99999 / 100000],
             bn_weight = [1], bn_bias = [0], eps = 1 / 100000\<rparr>,
      gate = \<lparr>glu_fc1 = \<lparr>in_features = 1, out_features = 1, weight = [[0]], bias = [0]\<rparr>,
               glu_fc2 = \<lparr>in_features = 1, out_features = 1, weight = [[1]], bias = [0]\<rparr>\<rparr>\<rparr>"

definition example_model :: TFT where
  "example_model =
     \<lparr>batch_size = 2, static_variables = 1, encode_length = 1,
      time_varying_categoical_variables = 1, time_varying_real_variables = 1,
      hidden_size = 1, lstm_layers = 1,
      static_embedding_layers = [\<lparr>embedding_dim = 1, table = [[10], [20]]\<rparr>],
      time_varying_embedding_layers = [\<lparr>embedding_dim = 1, table = [[100], [101], [102], [103]]\<rparr>],
      time_varying_linear_layers = [\<lparr>in_features = 1, out_features = 1, weight = [[1]], bias = [0]\<rparr>],
      lstm_encoder = stub_lstm 1, lstm_decoder = stub_lstm 1,
      static_enrichment = example_grn, pos_wise_ff = example_grn,
      multihead_attn = stub_attn,
      output_layer = \<lparr>in_features = 1, out_features = 1, weight = [[1]], bias = [0]\<rparr>\<rparr>"

definition example_batch :: batch where
  "example_batch =
     \<lparr>ident = Tensor [2, 3, 1] [0, 0, 0, 1, 1, 1],
      inputs = Tensor [2, 3, 2] [1, 0, 2, 1, 3, 2, 4, 3, 5, 0, 6, 1]\<rparr>"

section \<open>Observing the recurrent layers\<close>

text \<open>
  Two ways of wrapping a recurrent layer, to state what a forward pass hands it and what
  it uses of its result: \<open>requiring_state P f\<close> raises unless the initial pair of states
  satisfies \<open>P\<close>; \<open>replacing_cell g f\<close> returns what \<open>f\<close> returns with the final
  cell state replaced by its image under \<open>g\<close>.
\<close>

definition requiring_state :: "(real tensor \<times> real tensor \<Rightarrow> bool) \<Rightarrow> LSTM \<Rightarrow> LSTM" where
  "requiring_state P f x st = (if P st then f x st else Inl RuntimeError)"

definition replacing_cell :: "(real tensor \<Rightarrow> real tensor) \<Rightarrow> LSTM \<Rightarrow> LSTM" where
  "replacing_cell g f x st = ebind (f x st) (\<lambda>(out, (h, c)). Inr (out, (h, g c)))"

section \<open>Contracts of the runtime layers and sizes set by the constructors\<close>




section \<open>Properties\<close>

lemma ebind_Inr [simp]: "ebind (Inr v) f = f v"
  by (simp add: ebind_def)

lemma ebind_Inl [simp]: "ebind (Inl e) f = Inl e"
  by (simp add: ebind_def)

lemma ebind_eq_Inr: "ebind m f = Inr r \<longleftrightarrow> (\<exists>v. m = Inr v \<and> f v = Inr r)"
  by (cases m) simp_all

lemma ebind_ne_ValueError:
  assumes "m \<noteq> Inl ValueError" and "\<And>v. f v \<noteq> Inl ValueError"
  shows "ebind m f \<noteq> Inl ValueError"
  using assms by (cases m) simp_all

lemma binop_ne_ValueError: "binop f a b \<noteq> Inl ValueError"
  by (simp add: binop_def split: option.splits)

lemma torch_max_ne_ValueError: "torch_max t a \<noteq> Inl ValueError"
  by (cases a) (simp_all add: torch_max_def binop_ne_ValueError)

text \<open>
  C4. The quantile loss raises the input-validation error (ValueError) exactly when the
  quantile lies outside the interval from 0 to 1; so it raises it at -0.1 and at 1.1 and
  at no quantile inside the interval.
\<close>

theorem quantile_loss_ValueError_iff:
  "(pytorch_quantile_loss y y_pred quantile = Inl ValueError \<longleftrightarrow> quantile < 0 \<or> 1 < quantile)
   \<and> pytorch_quantile_loss y y_pred (- 1 / 10) = Inl ValueError
   \<and> pytorch_quantile_loss y y_pred (11 / 10) = Inl ValueError"
proof -
  have "pytorch_quantile_loss y y_pred q \<noteq> Inl ValueError" if "\<not> (q < 0 \<or> 1 < q)" for q
    using that unfolding pytorch_quantile_loss_def
    by (simp add: tsub_def tadd_def)
       (intro ebind_ne_ValueError binop_ne_ValueError torch_max_ne_ValueError, simp)
  moreover have "pytorch_quantile_loss y y_pred q = Inl ValueError" if "q < 0 \<or> 1 < q" for q
    using that by (auto simp: pytorch_quantile_loss_def)
  ultimately show ?thesis by (auto simp del: not_less)
qed

subsection \<open>The quantile loss on valid quantiles\<close>

text \<open>
  C3. On a pair of equally shaped arrays and a quantile in the unit interval the source
  calls \<^verbatim>\<open>torch.max\<close> with a Python float as second argument, which the runtime refuses:
  the loss raises TypeError and returns no row sums.
\<close>

theorem quantile_loss_raises_TypeError:
  "pytorch_quantile_loss (Tensor [1, 2] [1, 0]) (Tensor [1, 2] [0, 2]) (1 / 2) = Inl TypeError"
  by (simp add: pytorch_quantile_loss_def tsub_def binop_def torch_max_def)

subsection \<open>The attention mask\<close>

lemma index2_less: "i < m \<Longrightarrow> j < n \<Longrightarrow> i * n + j < m * (n::nat)"
proof -
  assume a: "i < m" "j < n"
  then have "i * n + j < i * n + n" by simp
  also have "\<dots> = Suc i * n" by simp
  also have "\<dots> \<le> m * n" using a(1) by (intro mult_le_mono1) simp
  finally show ?thesis .
qed

lemma index2_div: "j < n \<Longrightarrow> (i * n + j) div n = (i::nat)"
  by simp

lemma index2_mod: "j < n \<Longrightarrow> (i * n + j) mod n = (j::nat)"
  by simp

lemma mask_data:
  "generate_square_subsequent_mask T =
     Inr (Tensor [T, T] (map (\<lambda>k. if k div T < k mod T then MInf else Fin 0) [0..<T * T]))"
proof -
  have u: "triu (ones T T) =
      Inr (Tensor [T, T] (map (\<lambda>k. if k div T \<le> k mod T then 1 else 0) [0..<T * T]))"
    by (auto simp: ones_def triu_def intro!: nth_equalityI)
  have tr: "transpose01 (eq_scalar (Tensor [T, T] (map (\<lambda>k. if k div T \<le> k mod T then 1 else 0) [0..<T * T])) 1)
      = Inr (Tensor [T, T] (map (\<lambda>k. k mod T \<le> k div T) [0..<T * T]))"
  proof -
    have "(map (\<lambda>v. v = 1) (map (\<lambda>k. if k div T \<le> k mod T then 1 else (0::real)) [0..<T * T]))
            ! (k mod T * T + k div T) = (k mod T \<le> k div T)" if "k < T * T" for k
    proof -
      from that have T: "0 < T" by (cases T) simp_all
      then have j: "k mod T < T" by simp
      from that have i: "k div T < T" by (simp add: less_mult_imp_div_less)
      have lt: "k mod T * T + k div T < T * T" using index2_less [OF j i] .
      show ?thesis using lt i by (simp add: index2_div index2_mod)
    qed
    then show ?thesis
      by (auto simp: transpose01_def eq_scalar_def tmap_def intro!: nth_equalityI)
  qed
  show ?thesis
    unfolding generate_square_subsequent_mask_def u ebind_Inr tr
    by (auto simp: float_of_bool_def bool_eq_scalar_def masked_fill_def tmap_def intro!: nth_equalityI)
qed

text \<open>
  C8. For every size \<open>T\<close> the causal mask is a \<open>T \<times> T\<close> matrix whose entry \<open>(i, j)\<close> is minus
  infinity when \<open>j > i\<close> and 0 when \<open>j \<le> i\<close>.
\<close>

theorem mask_entries:
  assumes "i < T" and "j < T"
  shows "\<exists>m. generate_square_subsequent_mask T = Inr m \<and> shape m = [T, T] \<and> wf_tensor m
           \<and> entry2 m i j = (if i < j then MInf else Fin 0)"
  using assms index2_less [OF assms]
  by (simp add: mask_data entry2_def wf_tensor_def index2_div index2_mod)

theorem mask_entries_witness:
  "(1::nat) < 4 \<and> (2::nat) < 4 \<and> (\<exists>m. generate_square_subsequent_mask 4 = Inr m \<and> shape m = [4, 4] \<and> wf_tensor m
           \<and> entry2 m 1 2 = MInf \<and> entry2 m 2 1 = Fin 0)"
  using mask_entries [of 1 4 2] mask_entries [of 2 4 1] by auto

subsection \<open>TimeDistributed around the identity\<close>

text \<open>
  C9, as the code has it. Around the identity transformation the wrapper returns a rank-3
  input unchanged, in shape and in values, exactly when the feature axis is not empty and,
  in batch-first mode, axis 0 is not empty, in the default mode, axis 1 is not empty. On the
  other rank-3 inputs the \<open>-1\<close> of a \<^verbatim>\<open>view\<close> stands beside a zero-sized dimension and the
  runtime raises.
\<close>

theorem TimeDistributed_identity:
  assumes "shape x = [a, b, c]"
  shows "(TimeDistributed_forward Inr True x = Inr x \<longleftrightarrow> 0 < a \<and> 0 < c)
       \<and> (TimeDistributed_forward Inr False x = Inr x \<longleftrightarrow> 0 < b \<and> 0 < c)"
  using assms
  by (cases x)
     (auto simp: TimeDistributed_forward_def size_at_def view_def numel_def infer_size_def
        Let_def ebind_eq_Inr split: if_splits)

theorem TimeDistributed_identity_witness:
  "TimeDistributed_forward Inr True (Tensor [2, 1, 1] [5, 7 :: real]) = Inr (Tensor [2, 1, 1] [5, 7])
   \<and> TimeDistributed_forward Inr False (Tensor [2, 1, 1] [5, 7 :: real]) = Inr (Tensor [2, 1, 1] [5, 7])"
  using TimeDistributed_identity [of "Tensor [2, 1, 1] [5, 7 :: real]" 2 1 1] by simp

text \<open>A rank-3 input with an empty feature axis: both modes raise.\<close>

theorem TimeDistributed_identity_empty_feature_axis:
  "TimeDistributed_forward Inr True (Tensor [1, 1, 0] ([] :: real list)) = Inl RuntimeError
   \<and> TimeDistributed_forward Inr False (Tensor [1, 1, 0] ([] :: real list)) = Inl RuntimeError"
  by (simp add: TimeDistributed_forward_def size_at_def view_def numel_def infer_size_def)

subsection \<open>What the forward pass reads\<close>

lemma init_hidden_pos_wise_ff [simp]: "init_hidden (m\<lparr>pos_wise_ff := g\<rparr>) = init_hidden m"
  by (simp add: init_hidden_def)

lemma apply_embedding_pos_wise_ff [simp]:
  "apply_embedding (m\<lparr>pos_wise_ff := g\<rparr>) = apply_embedding m"
  by (simp add: apply_embedding_def fun_eq_iff)

lemma encode_pos_wise_ff [simp]: "encode (m\<lparr>pos_wise_ff := g\<rparr>) = encode m"
  by (simp add: encode_def fun_eq_iff Let_def split: option.splits)

lemma decode_pos_wise_ff [simp]: "decode (m\<lparr>pos_wise_ff := g\<rparr>) = decode m"
  by (simp add: decode_def fun_eq_iff Let_def split: option.splits)

text \<open>
  C5. The forward pass never reads \<open>pos_wise_ff\<close>: replacing that sub-module by any other
  leaves the result of \<open>forward\<close>, the 5-tuple or the error, unchanged on every input batch.
\<close>

theorem forward_ignores_pos_wise_ff: "forward (m\<lparr>pos_wise_ff := g\<rparr>) x = forward m x"
  by (simp add: forward_def)

lemma select_first_step_agree:
  assumes "shape t = [b, n, f]" and "shape t' = [b, n, f]"
    and "\<forall>k<b. \<forall>i<f. entry3 t k 0 i = entry3 t' k 0 i"
  shows "select_first_step t = select_first_step t'"
proof
  fix i
  show "select_first_step t i = select_first_step t' i"
    using assms by (auto simp: select_first_step_def entry3_def mult.assoc)
qed

text \<open>
  C6. Two input batches with the same \<open>inputs\<close> whose identifier arrays have the same shape
  and agree at time index 0 give the same result of \<open>forward\<close>, whatever the identifier
  arrays hold at the later time indices.
\<close>

theorem forward_reads_first_step_of_identifier:
  assumes "inputs x = inputs x'"
    and "shape (ident x) = [b, n, f]" and "shape (ident x') = [b, n, f]"
    and "\<forall>k<b. \<forall>i<f. entry3 (ident x) k 0 i = entry3 (ident x') k 0 i"
  shows "forward m x = forward m x'"
  using select_first_step_agree [OF assms(2,3,4)] assms(1)
  by (simp add: forward_def)

theorem forward_reads_first_step_of_identifier_witness:
  "\<forall>m :: TFT.
     forward m \<lparr>ident = Tensor [2, 2, 1] [0, 1, 1, 0], inputs = Tensor [2, 2, 2] [1, 0, 2, 1, 3, 0, 4, 1]\<rparr>
     = forward m \<lparr>ident = Tensor [2, 2, 1] [0, 0, 1, 1], inputs = Tensor [2, 2, 2] [1, 0, 2, 1, 3, 0, 4, 1]\<rparr>"
proof
  fix m :: TFT
  have "\<forall>k<2. \<forall>i<1. entry3 (Tensor [2, 2, 1] [0, 1, 1, 0 :: real]) k 0 i
          = entry3 (Tensor [2, 2, 1] [0, 0, 1, 1]) k 0 i"
    by (simp add: entry3_def less_Suc_eq numeral_2_eq_2)
  then show "forward m \<lparr>ident = Tensor [2, 2, 1] [0, 1, 1, 0], inputs = Tensor [2, 2, 2] [1, 0, 2, 1, 3, 0, 4, 1]\<rparr>
     = forward m \<lparr>ident = Tensor [2, 2, 1] [0, 0, 1, 1], inputs = Tensor [2, 2, 2] [1, 0, 2, 1, 3, 0, 4, 1]\<rparr>"
    by (intro forward_reads_first_step_of_identifier [where b = 2 and n = 2 and f = 1]) simp_all
qed

subsection \<open>The fused embedding\<close>

text \<open>
  C1. A run of \<open>apply_embedding\<close> on a window of 2 batch elements and 2 time steps, each with
  the real value and the category code \<open>(1, 0)\<close>, \<open>(2, 1)\<close> for batch element 0 and
  \<open>(3, 2)\<close>, \<open>(4, 3)\<close> for batch element 1, and static embeddings 10 and 20. The final
  \<^verbatim>\<open>view\<close> relabels the axes without moving the elements: the entry at (time 0, batch 1)
  is \<open>[20, 101, 2]\<close>, the time-varying embeddings of batch element 0 at time 1, where the
  concatenation for batch element 1 at time 0 is \<open>[20, 102, 3]\<close>.
\<close>

theorem apply_embedding_misplaces_time_varying:
  "apply_embedding example_model (Tensor [2, 2, 2] [1, 0, 2, 1, 3, 2, 4, 3]) (Tensor [2, 1] [10, 20])
     = Inr (Tensor [2, 2, 3] [10, 100, 1, 20, 101, 2, 10, 102, 3, 20, 103, 4])"
  by code_simp

subsection \<open>The gated residual network with and without context\<close>

lemmas eval_defs = GatedResidualNetwork_forward_def TimeDistributed_forward_def size_at_def view_def
  numel_def infer_size_def Linear_forward_def Linear_row_def dot_def block_def tmap_def tadd_def tmul_def
  binop_def GLU_forward_def BatchNorm1d_forward_def BatchNorm1d_row_def dropout_def elu_def sigmoid_def

text \<open>
  A network whose context layer has bias 1: without context the input 0 is mapped to 0,
  with the zero context to 1/2.
\<close>

theorem zero_context_differs_from_no_context:
  "GatedResidualNetwork_forward example_grn (Tensor [1, 1, 1] [0]) None = Inr (Tensor [1, 1, 1] [0])
   \<and> GatedResidualNetwork_forward example_grn (Tensor [1, 1, 1] [0]) (Some (Tensor [1, 1, 1] [0]))
       = Inr (Tensor [1, 1, 1] [1 / 2])
   \<and> GatedResidualNetwork_forward example_grn (Tensor [1, 1, 1] [0]) None
       \<noteq> GatedResidualNetwork_forward example_grn (Tensor [1, 1, 1] [0]) (Some (Tensor [1, 1, 1] [0]))"
  by (simp add: example_grn_def eval_defs)

subsection \<open>Views, rows and linear layers\<close>

lemma length_concat_const:
  assumes "\<And>k. k \<in> set ks \<Longrightarrow> length (f k) = n"
  shows "length (concat (map f ks)) = length ks * n"
  using assms by (induction ks) simp_all

lemma concat_replicate_const:
  assumes "\<And>k. k \<in> set ks \<Longrightarrow> f k = replicate n v"
  shows "concat (map f ks) = replicate (length ks * n) v"
  using assms by (induction ks) (simp_all add: replicate_add)

lemma block_replicate: "block n k (replicate j v) = replicate (min n (j - k * n)) v"
  by (simp add: block_def)

lemma dot_zero: "dot w (replicate j 0) = 0"
proof -
  have "sum_list (map2 (*) w (replicate j (0::real))) = 0" for w
    by (induction w arbitrary: j) (simp, case_tac j, simp_all)
  then show ?thesis by (simp add: dot_def)
qed

lemma length_Linear_row: "wf_Linear l \<Longrightarrow> length (Linear_row l r) = out_features l"
  by (simp add: wf_Linear_def Linear_row_def)

lemma Linear_row_zero:
  assumes "wf_Linear l" and "bias l = replicate (out_features l) 0"
  shows "Linear_row l (replicate j 0) = replicate (out_features l) 0"
proof (rule nth_equalityI)
  show "length (Linear_row l (replicate j 0)) = length (replicate (out_features l) (0::real))"
    using assms(1) by (simp add: length_Linear_row)
next
  fix i assume "i < length (Linear_row l (replicate j 0))"
  then have i: "i < out_features l" using assms(1) by (simp add: length_Linear_row)
  then show "Linear_row l (replicate j 0) ! i = replicate (out_features l) 0 ! i"
    using assms by (simp add: Linear_row_def wf_Linear_def dot_zero)
qed

text \<open>The rows of a linear layer over a matrix of \<open>p\<close> rows.\<close>

lemma Linear_forward_rows:
  "Linear_forward l (Tensor [p, n] xs) =
     (if n = in_features l
      then Inr (Tensor [p, out_features l]
                  (concat (map (\<lambda>k. Linear_row l (block (in_features l) k xs)) [0..<p])))
      else Inl RuntimeError)"
  by (simp add: Linear_forward_def)

lemma view_rows:
  "view t [-1, int n] =
     (if 0 < n \<and> numel t mod n = 0 then Inr (Tensor [numel t div n, n] (data t)) else Inl RuntimeError)"
  by (auto simp: view_def infer_size_def Let_def)

lemma view_front:
  "view t [-1, int b, int c] =
     (if 0 < b * c \<and> numel t mod (b * c) = 0 then Inr (Tensor [numel t div (b * c), b, c] (data t))
      else Inl RuntimeError)"
  by (auto simp: view_def infer_size_def Let_def)

lemma view_mid:
  "view t [int a, -1, int c] =
     (if 0 < a * c \<and> numel t mod (a * c) = 0 then Inr (Tensor [a, numel t div (a * c), c] (data t))
      else Inl RuntimeError)"
  by (auto simp: view_def infer_size_def Let_def)


lemma size_at_last: "shape t \<noteq> [] \<Longrightarrow> size_at t (-1) = Inr (last (shape t))"
  by (cases "shape t" rule: rev_cases) (auto simp: size_at_def Let_def nth_append nat_diff_distrib' last_conv_nth)


lemma numel_butlast: "shape t \<noteq> [] \<Longrightarrow> numel t = prod_list (butlast (shape t)) * last (shape t)"
  by (cases "shape t" rule: rev_cases) (simp_all add: numel_def)

lemma TimeDistributed_Linear_low_rank:
  assumes "length (shape x) \<le> 2"
  shows "TimeDistributed_forward (Linear_forward l) bf x =
     (if shape x \<noteq> [] \<and> last (shape x) = in_features l
      then Inr (Tensor (butlast (shape x) @ [out_features l])
                  (concat (map (\<lambda>k. Linear_row l (block (in_features l) k (data x)))
                               [0..<prod_list (butlast (shape x))])))
      else Inl RuntimeError)"
  using assms by (simp add: TimeDistributed_forward_def Linear_forward_def)

lemma rank3_nonempty: "2 < length (shape x) \<Longrightarrow> shape x \<noteq> []"
  by (cases "shape x") simp_all

lemma TimeDistributed_rank3:
  assumes "2 < length (shape x)"
  shows "TimeDistributed_forward f bf x =
     ebind (view x [-1, int (last (shape x))]) (\<lambda>x_reshape.
     ebind (f x_reshape) (\<lambda>y.
     ebind (size_at y (-1)) (\<lambda>c.
       if bf then view y [int (shape x ! 0), -1, int c] else view y [-1, int (shape x ! 1), int c])))"
proof -
  have s: "size_at x 0 = Inr (shape x ! 0)" "size_at x 1 = Inr (shape x ! 1)"
    using assms rank3_nonempty [OF assms] by (simp_all add: size_at_def)
  show ?thesis
    using assms rank3_nonempty [OF assms]
    by (cases bf) (simp_all add: TimeDistributed_forward_def size_at_last s)
qed

lemma size_at_last_matrix: "size_at (Tensor [p, c] xs) (-1) = Inr c"
  by (simp add: size_at_def)

lemma view_rows_of:
  assumes "shape x \<noteq> []" and "0 < last (shape x)"
  shows "view x [-1, int (last (shape x))] = Inr (Tensor [prod_list (butlast (shape x)), last (shape x)] (data x))"
  using assms by (simp add: view_rows numel_butlast)

lemma view_rows_empty:
  assumes "last (shape x) = 0"
  shows "view x [-1, int (last (shape x))] = Inl RuntimeError"
  using assms by (simp add: view_def infer_size_def)

lemma TimeDistributed_Linear_default:
  assumes "2 < length (shape x)"
  shows "TimeDistributed_forward (Linear_forward l) False x =
     (if 0 < in_features l \<and> last (shape x) = in_features l
         \<and> 0 < shape x ! 1 * out_features l
         \<and> (prod_list (butlast (shape x)) * out_features l) mod (shape x ! 1 * out_features l) = 0
      then Inr (Tensor [prod_list (butlast (shape x)) * out_features l div (shape x ! 1 * out_features l),
                        shape x ! 1, out_features l]
                  (concat (map (\<lambda>k. Linear_row l (block (in_features l) k (data x)))
                               [0..<prod_list (butlast (shape x))])))
      else Inl RuntimeError)"
proof (cases "0 < last (shape x)")
  case True
  show ?thesis
    unfolding TimeDistributed_rank3 [OF assms] view_rows_of [OF rank3_nonempty [OF assms] True]
    using True by (auto simp: Linear_forward_rows size_at_last_matrix view_front numel_def)
next
  case False
  then have "view x [-1, int (last (shape x))] = Inl RuntimeError"
    by (intro view_rows_empty) simp
  with False show ?thesis
    unfolding TimeDistributed_rank3 [OF assms] by auto
qed

lemma TimeDistributed_Linear_batch_first:
  assumes "2 < length (shape x)"
  shows "TimeDistributed_forward (Linear_forward l) True x =
     (if 0 < in_features l \<and> last (shape x) = in_features l
         \<and> 0 < shape x ! 0 * out_features l
         \<and> (prod_list (butlast (shape x)) * out_features l) mod (shape x ! 0 * out_features l) = 0
      then Inr (Tensor [shape x ! 0,
                        prod_list (butlast (shape x)) * out_features l div (shape x ! 0 * out_features l),
                        out_features l]
                  (concat (map (\<lambda>k. Linear_row l (block (in_features l) k (data x)))
                               [0..<prod_list (butlast (shape x))])))
      else Inl RuntimeError)"
proof (cases "0 < last (shape x)")
  case True
  show ?thesis
    unfolding TimeDistributed_rank3 [OF assms] view_rows_of [OF rank3_nonempty [OF assms] True]
    using True by (auto simp: Linear_forward_rows size_at_last_matrix view_mid numel_def)
next
  case False
  then have "view x [-1, int (last (shape x))] = Inl RuntimeError"
    by (intro view_rows_empty) simp
  with False show ?thesis
    unfolding TimeDistributed_rank3 [OF assms] by auto
qed

lemma Linear_rows_of_zeros:
  assumes "wf_Linear l" and "bias l = replicate (out_features l) 0"
  shows "concat (map (\<lambda>k. Linear_row l (block (in_features l) k (replicate j 0))) [0..<p])
           = replicate (p * out_features l) 0"
  using assms by (subst concat_replicate_const [where n = "out_features l" and v = 0])
    (simp_all add: block_replicate Linear_row_zero)

lemma length_Linear_rows:
  assumes "wf_Linear l"
  shows "length (concat (map (\<lambda>k. Linear_row l (block (in_features l) k xs)) [0..<p])) = p * out_features l"
  using assms by (subst length_concat_const [where n = "out_features l"]) (simp_all add: length_Linear_row)

lemma context_of_zeros:
  assumes x1: "TimeDistributed_forward (Linear_forward fc) False x = Inr x1"
    and wf: "wf_Linear fc" "wf_Linear l"
    and out: "out_features l = out_features fc"
    and bias: "bias l = replicate (out_features l) 0"
    and c: "shape c = butlast (shape x) @ [in_features l]" "data c = replicate (prod_list (shape c)) 0"
    and pos: "0 < in_features l"
  shows "TimeDistributed_forward (Linear_forward l) False c
           = Inr (Tensor (shape x1) (replicate (length (data x1)) 0))"
proof (cases "length (shape x) \<le> 2")
  case True
  with x1 have ne: "shape x \<noteq> []" and "last (shape x) = in_features fc"
    by (auto simp: TimeDistributed_Linear_low_rank split: if_splits)
  with x1 True have x1': "x1 = Tensor (butlast (shape x) @ [out_features fc])
       (concat (map (\<lambda>k. Linear_row fc (block (in_features fc) k (data x))) [0..<prod_list (butlast (shape x))]))"
    by (simp add: TimeDistributed_Linear_low_rank)
  from ne True have "length (shape c) \<le> 2" by (simp add: c(1))
  then show ?thesis
    by (simp add: TimeDistributed_Linear_low_rank c x1' Linear_rows_of_zeros [OF wf(2) bias]
        length_Linear_rows [OF wf(1)] out)
next
  case False
  then have r: "2 < length (shape x)" by simp
  then have rc: "2 < length (shape c)" by (simp add: c(1))
  from r have "1 < length (butlast (shape x))" by simp
  then have n1: "shape c ! Suc 0 = shape x ! Suc 0" by (simp add: c(1) nth_append nth_butlast)
  from x1 r have ok: "0 < shape x ! 1 * out_features fc"
      "(prod_list (butlast (shape x)) * out_features fc) mod (shape x ! 1 * out_features fc) = 0"
    and x1': "x1 = Tensor [prod_list (butlast (shape x)) * out_features fc div (shape x ! 1 * out_features fc),
                        shape x ! 1, out_features fc]
       (concat (map (\<lambda>k. Linear_row fc (block (in_features fc) k (data x))) [0..<prod_list (butlast (shape x))]))"
    by (auto simp: TimeDistributed_Linear_default split: if_splits)
  have lc: "last (shape c) = in_features l" "butlast (shape c) = butlast (shape x)"
    by (simp_all add: c(1))
  show ?thesis
    using ok pos
    by (simp add: TimeDistributed_Linear_default [OF rc] c(2) n1 lc x1' Linear_rows_of_zeros [OF wf(2) bias]
        length_Linear_rows [OF wf(1)] out)
qed

lemma tadd_zeros: "tadd t (Tensor (shape t) (replicate (length (data t)) 0)) = Inr t"
proof -
  have "map2 (+) xs (replicate (length xs) (0::real)) = xs" for xs
    by (induction xs) simp_all
  then show ?thesis by (simp add: tadd_def binop_def)
qed

text \<open>
  C2, as the code has it. With a context the network adds \<open>context(c)\<close>, a linear layer
  with a bias, to the output of its first layer. For a network whose context layer has
  zero bias (and the output size of the first layer), the zero context of the leading shape
  of the input gives exactly the result of the call without context, whatever the input.
\<close>

theorem zero_context_without_bias:
  assumes "context_fc g = Some l"
    and "wf_Linear (fc1 g)" and "wf_Linear l"
    and "out_features l = out_features (fc1 g)"
    and "bias l = replicate (out_features l) 0"
    and "0 < in_features l"
  shows "GatedResidualNetwork_forward g x (Some (zeros (butlast (shape x) @ [in_features l])))
           = GatedResidualNetwork_forward g x None"
proof (cases "TimeDistributed_forward (Linear_forward (fc1 g)) False x")
  case (Inl e)
  then show ?thesis by (simp add: GatedResidualNetwork_forward_def)
next
  case (Inr x1)
  have "TimeDistributed_forward (Linear_forward l) False (zeros (butlast (shape x) @ [in_features l]))
          = Inr (Tensor (shape x1) (replicate (length (data x1)) 0))"
    using assms by (intro context_of_zeros [OF Inr]) (simp_all add: zeros_def)
  then show ?thesis
    by (simp add: GatedResidualNetwork_forward_def Inr assms(1) tadd_zeros)
qed

theorem zero_context_without_bias_witness:
  "GatedResidualNetwork_forward
     (example_grn\<lparr>context_fc := Some \<lparr>in_features = 1, out_features = 1, weight = [[3]], bias = [0]\<rparr>\<rparr>)
     (Tensor [1, 2, 1] [0, 1]) (Some (zeros [1, 2, 1]))
   = GatedResidualNetwork_forward
     (example_grn\<lparr>context_fc := Some \<lparr>in_features = 1, out_features = 1, weight = [[3]], bias = [0]\<rparr>\<rparr>)
     (Tensor [1, 2, 1] [0, 1]) None"
  using zero_context_without_bias
    [of "example_grn\<lparr>context_fc := Some \<lparr>in_features = 1, out_features = 1, weight = [[3]], bias = [0]\<rparr>\<rparr>"
        "\<lparr>in_features = 1, out_features = 1, weight = [[3]], bias = [0]\<rparr>" "Tensor [1, 2, 1] [0, 1]"]
  by (simp add: example_grn_def wf_Linear_def)

subsection \<open>Shapes along the forward pass\<close>

lemma ebindE:
  assumes "ebind m f = Inr r"
  obtains v where "m = Inr v" and "f v = Inr r"
  using assms by (cases m) simp_all



lemma torch_cat_shapes_agree:
  assumes "torch_cat ts d = Inr y" and "t \<in> set ts"
  shows "length (shape t) = length (shape (hd ts)) \<and> take d (shape t) = take d (shape (hd ts))
       \<and> drop (Suc d) (shape t) = drop (Suc d) (shape (hd ts))"
  using assms by (cases ts) (auto simp: torch_cat_def list_ex_iff split: if_splits)














lemma encode_Inr:
  assumes "encode m x None = Inr (out, h)"
  shows "\<exists>c. lstm_encoder m x (init_hidden m, init_hidden m) = Inr (out, (h, c))"
  using assms by (auto simp: encode_def Let_def elim!: ebindE)

lemma decode_Inr:
  assumes "decode m x (Some h0) = Inr (out, h)"
  shows "\<exists>c. lstm_decoder m x (h0, h0) = Inr (out, (h, c))"
  using assms by (auto simp: decode_def Let_def elim!: ebindE)

lemma forward_Inr:
  assumes "forward m x = Inr (output, encoder_output, decoder_output, attn_output, attn_output_weights)"
  obtains se ew ee dw ed hidden h2 lo n0 n1 rep st ai msk attended v
  where "slice_time_to (inputs x) (encode_length m) = Inr ew"
    and "apply_embedding m ew se = Inr ee"
    and "slice_time_from (inputs x) (encode_length m) = Inr dw"
    and "apply_embedding m dw se = Inr ed"
    and "encode m ee None = Inr (encoder_output, hidden)"
    and "decode m ed (Some hidden) = Inr (decoder_output, h2)"
    and "torch_cat [encoder_output, decoder_output] 0 = Inr lo"
    and "size_at lo 0 = Inr n0" and "size_at lo 1 = Inr n1"
    and "view rep [int n0, int n1, -1] = Inr st"
    and "GatedResidualNetwork_forward (static_enrichment m) lo (Some st) = Inr ai"
    and "multihead_attn m ai ai lo msk = Inr (attended, attn_output_weights)"
    and "slice_from attended (encode_length m) = Inr attn_output"
    and "view attn_output [int (batch_size m), -1, int (hidden_size m)] = Inr v"
    and "TimeDistributed_forward (Linear_forward (output_layer m)) True v = Inr output"
proof -
  from assms have "\<exists>se ew ee dw ed hidden h2 lo n0 n1 rep st ai msk attended v.
      slice_time_to (inputs x) (encode_length m) = Inr ew
    \<and> apply_embedding m ew se = Inr ee
    \<and> slice_time_from (inputs x) (encode_length m) = Inr dw
    \<and> apply_embedding m dw se = Inr ed
    \<and> encode m ee None = Inr (encoder_output, hidden)
    \<and> decode m ed (Some hidden) = Inr (decoder_output, h2)
    \<and> torch_cat [encoder_output, decoder_output] 0 = Inr lo
    \<and> size_at lo 0 = Inr n0 \<and> size_at lo 1 = Inr n1
    \<and> view rep [int n0, int n1, -1] = Inr st
    \<and> GatedResidualNetwork_forward (static_enrichment m) lo (Some st) = Inr ai
    \<and> multihead_attn m ai ai lo msk = Inr (attended, attn_output_weights)
    \<and> slice_from attended (encode_length m) = Inr attn_output
    \<and> view attn_output [int (batch_size m), -1, int (hidden_size m)] = Inr v
    \<and> TimeDistributed_forward (Linear_forward (output_layer m)) True v = Inr output"
    unfolding forward_def
    apply (simp only: ebind_eq_Inr case_prod_beta)
    apply (elim exE conjE)
    apply (simp only: split_paired_all fst_conv snd_conv sum.inject prod.inject)
    apply (elim conjE)
    apply hypsubst
    apply blast
    done
  then show thesis using that by blast
qed






subsection \<open>A run of the forward pass\<close>

lemma grn_run: "GatedResidualNetwork_forward example_grn (Tensor [3, 2, 1] [0, 0, 0, 0, 0, 0]) (Some (Tensor [3, 2, 1] [10, 20, 10, 20, 10, 20]))
  = Inr (Tensor [3, 2, 1] [1/2, 1/2, 1/2, 1/2, 1/2, 1/2])"
  by (simp add: example_grn_def eval_defs upt_rec [of _ "numeral _"] upt_rec [of _ "Suc _"])


lemma ex_static:
  "mapE (\<lambda>i.
              ebind (list_get (static_embedding_layers example_model) i) (\<lambda>layer.
              ebind (select_first_step (ident example_batch) i) (\<lambda>codes.
              Embedding_forward layer (long codes))))
            [0..<static_variables example_model]
   = Inr [Tensor [2, 1] [10, 20]]"
  "torch_cat [Tensor [2, 1] [10, 20 :: real]] 1 = Inr (Tensor [2, 1] [10, 20])"
  by code_simp+

lemma ex_windows:
  "slice_time_to (inputs example_batch) (encode_length example_model) = Inr (Tensor [2, 1, 2] [1, 0, 4, 3])"
  "slice_time_from (inputs example_batch) (encode_length example_model) = Inr (Tensor [2, 2, 2] [2, 1, 3, 2, 5, 0, 6, 1])"
  by code_simp+

lemma ex_embeddings:
  "apply_embedding example_model (Tensor [2, 1, 2] [1, 0, 4, 3]) (Tensor [2, 1] [10, 20])
     = Inr (Tensor [1, 2, 3] [10, 100, 1, 20, 103, 4])"
  "apply_embedding example_model (Tensor [2, 2, 2] [2, 1, 3, 2, 5, 0, 6, 1]) (Tensor [2, 1] [10, 20])
     = Inr (Tensor [2, 2, 3] [10, 101, 2, 20, 102, 3, 10, 100, 5, 20, 101, 6])"
  by code_simp+

lemma ex_recurrent:
  "encode example_model (Tensor [1, 2, 3] [10, 100, 1, 20, 103, 4]) None
     = Inr (Tensor [1, 2, 1] [0, 0], Tensor [1, 2, 1] [1, 1])"
  "decode example_model (Tensor [2, 2, 3] [10, 101, 2, 20, 102, 3, 10, 100, 5, 20, 101, 6]) (Some (Tensor [1, 2, 1] [1, 1]))
     = Inr (Tensor [2, 2, 1] [0, 0, 0, 0], Tensor [1, 2, 1] [2, 2])"
  "torch_cat [Tensor [1, 2, 1] [0, 0 :: real], Tensor [2, 2, 1] [0, 0, 0, 0]] 0
     = Inr (Tensor [3, 2, 1] [0, 0, 0, 0, 0, 0])"
  by code_simp+

lemma ex_context:
  "size_at (Tensor [3, 2, 1] [0, 0, 0, 0, 0, 0 :: real]) 0 = Inr 3"
  "size_at (Tensor [3, 2, 1] [0, 0, 0, 0, 0, 0 :: real]) 1 = Inr 2"
  "torch_cat (replicate 3 (Tensor [2, 1] [10, 20 :: real])) 0 = Inr (Tensor [6, 1] [10, 20, 10, 20, 10, 20])"
  "view (Tensor [6, 1] [10, 20, 10, 20, 10, 20 :: real]) [int 3, int 2, -1]
     = Inr (Tensor [3, 2, 1] [10, 20, 10, 20, 10, 20])"
  by code_simp+

lemma ex_enrichment:
  "GatedResidualNetwork_forward (static_enrichment example_model) (Tensor [3, 2, 1] [0, 0, 0, 0, 0, 0])
     (Some (Tensor [3, 2, 1] [10, 20, 10, 20, 10, 20]))
   = Inr (Tensor [3, 2, 1] [1 / 2, 1 / 2, 1 / 2, 1 / 2, 1 / 2, 1 / 2])"
proof -
  have "static_enrichment example_model = example_grn" by (simp add: example_model_def)
  then show ?thesis by (simp only: grn_run)
qed

lemma ex_attention:
  "size_at (Tensor [3, 2, 1] [1 / 2, 1 / 2, 1 / 2, 1 / 2, 1 / 2, 1 / 2 :: real]) 0 = Inr 3"
  "generate_square_subsequent_mask 3
     = Inr (Tensor [3, 3] [Fin 0, MInf, MInf, Fin 0, Fin 0, MInf, Fin 0, Fin 0, Fin 0])"
  "multihead_attn example_model (Tensor [3, 2, 1] [1 / 2, 1 / 2, 1 / 2, 1 / 2, 1 / 2, 1 / 2])
       (Tensor [3, 2, 1] [1 / 2, 1 / 2, 1 / 2, 1 / 2, 1 / 2, 1 / 2]) (Tensor [3, 2, 1] [0, 0, 0, 0, 0, 0])
       (Tensor [3, 3] [Fin 0, MInf, MInf, Fin 0, Fin 0, MInf, Fin 0, Fin 0, Fin 0])
     = Inr (Tensor [3, 2, 1] [1 / 2, 1 / 2, 1 / 2, 1 / 2, 1 / 2, 1 / 2],
            Tensor [2, 3, 3] [0, 0, 0, 0, 0, 0, 0, 0, 0, 0, 0, 0, 0, 0, 0, 0, 0, 0])"
  "slice_from (Tensor [3, 2, 1] [1 / 2, 1 / 2, 1 / 2, 1 / 2, 1 / 2, 1 / 2 :: real]) (encode_length example_model)
     = Inr (Tensor [2, 2, 1] [1 / 2, 1 / 2, 1 / 2, 1 / 2])"
  by code_simp+

lemma ex_output:
  "view (Tensor [2, 2, 1] [1 / 2, 1 / 2, 1 / 2, 1 / 2 :: real])
       [int (batch_size example_model), -1, int (hidden_size example_model)]
     = Inr (Tensor [2, 2, 1] [1 / 2, 1 / 2, 1 / 2, 1 / 2])"
  "TimeDistributed_forward (Linear_forward (output_layer example_model)) True
       (Tensor [2, 2, 1] [1 / 2, 1 / 2, 1 / 2, 1 / 2])
     = Inr (Tensor [2, 2, 1] [1 / 2, 1 / 2, 1 / 2, 1 / 2])"
  by code_simp+

lemma forward_example:
  "forward example_model example_batch =
     Inr (Tensor [2, 2, 1] [1 / 2, 1 / 2, 1 / 2, 1 / 2],
          Tensor [1, 2, 1] [0, 0],
          Tensor [2, 2, 1] [0, 0, 0, 0],
          Tensor [2, 2, 1] [1 / 2, 1 / 2, 1 / 2, 1 / 2],
          Tensor [2, 3, 3] [0, 0, 0, 0, 0, 0, 0, 0, 0, 0, 0, 0, 0, 0, 0, 0, 0, 0])"
  by (simp only: forward_def ex_static ex_windows ex_embeddings ex_recurrent ex_context ex_enrichment
      ex_attention ex_output ebind_Inr prod.case)






subsection \<open>The initial states of the recurrent layers\<close>

lemma apply_embedding_lstm_update [simp]:
  "apply_embedding (m\<lparr>lstm_encoder := E\<rparr>) = apply_embedding m"
  "apply_embedding (m\<lparr>lstm_decoder := D\<rparr>) = apply_embedding m"
  by (simp_all add: apply_embedding_def fun_eq_iff)

lemma init_hidden_lstm_update [simp]:
  "init_hidden (m\<lparr>lstm_encoder := E\<rparr>) = init_hidden m"
  "init_hidden (m\<lparr>lstm_decoder := D\<rparr>) = init_hidden m"
  by (simp_all add: init_hidden_def)

lemma encode_decoder_update [simp]: "encode (m\<lparr>lstm_decoder := D\<rparr>) = encode m"
  by (simp add: encode_def fun_eq_iff Let_def split: option.splits)

lemma decode_encoder_update [simp]: "decode (m\<lparr>lstm_encoder := E\<rparr>) = decode m"
  by (simp add: decode_def fun_eq_iff Let_def split: option.splits)

lemma encode_requiring_state:
  "encode (m\<lparr>lstm_encoder := requiring_state (\<lambda>st. st = (init_hidden m, init_hidden m)) (lstm_encoder m)\<rparr>) e None
     = encode m e None"
  by (simp add: encode_def requiring_state_def)

lemma decode_requiring_state:
  "decode (m'\<lparr>lstm_decoder := requiring_state (\<lambda>st. snd st = fst st) (lstm_decoder m)\<rparr>) e (Some h)
     = decode m e (Some h)"
  by (simp add: decode_def requiring_state_def)

lemma encode_replacing_cell:
  "encode (m\<lparr>lstm_encoder := replacing_cell g (lstm_encoder m)\<rparr>) e hidden = encode m e hidden"
proof -
  have "ebind (replacing_cell g f e st) (\<lambda>(out, (h, c)). Inr (out, h))
          = ebind (f e st) (\<lambda>(out, (h, c)). Inr (out, h))" for f :: LSTM and st
    by (cases "f e st") (auto simp: replacing_cell_def)
  then show ?thesis by (simp add: encode_def Let_def split: option.splits)
qed

text \<open>
  C10. In every forward pass each recurrent layer is started from a pair whose cell state
  equals its hidden state. \<open>init_hidden\<close> is the zero tensor; \<open>forward\<close> is unchanged when the
  encoder is made to refuse every start but (zeros, zeros) and the decoder every start whose
  cell state differs from its hidden state; it is unchanged when the final cell state that
  the encoder returns is replaced by anything else; and when it returns, its encoder output
  is that of the encoder started from (zeros, zeros), with some final states \<open>(h, c)\<close>, and
  its decoder output that of the decoder started from \<open>(h, h)\<close>.
\<close>

theorem lstm_initial_states:
  "init_hidden m = zeros [lstm_layers m, batch_size m, hidden_size m]
   \<and> forward (m\<lparr>lstm_encoder := requiring_state (\<lambda>st. st = (init_hidden m, init_hidden m)) (lstm_encoder m),
                lstm_decoder := requiring_state (\<lambda>st. snd st = fst st) (lstm_decoder m)\<rparr>) x
       = forward m x
   \<and> forward (m\<lparr>lstm_encoder := replacing_cell g (lstm_encoder m)\<rparr>) x = forward m x
   \<and> (forward m x = Inr (output, encoder_output, decoder_output, attn_output, attn_output_weights) \<longrightarrow>
        (\<exists>ee ed h c h' c'.
            lstm_encoder m ee (init_hidden m, init_hidden m) = Inr (encoder_output, (h, c))
          \<and> lstm_decoder m ed (h, h) = Inr (decoder_output, (h', c'))))"
proof (intro conjI impI)
  show "init_hidden m = zeros [lstm_layers m, batch_size m, hidden_size m]"
    by (simp add: init_hidden_def zeros_def mult.assoc)
next
  show "forward (m\<lparr>lstm_encoder := requiring_state (\<lambda>st. st = (init_hidden m, init_hidden m)) (lstm_encoder m),
                lstm_decoder := requiring_state (\<lambda>st. snd st = fst st) (lstm_decoder m)\<rparr>) x
       = forward m x"
    by (simp add: forward_def decode_requiring_state encode_requiring_state)
next
  show "forward (m\<lparr>lstm_encoder := replacing_cell g (lstm_encoder m)\<rparr>) x = forward m x"
    by (simp add: forward_def encode_replacing_cell)
next
  assume run: "forward m x = Inr (output, encoder_output, decoder_output, attn_output, attn_output_weights)"
  from run obtain ee ed hidden h2
    where en: "encode m ee None = Inr (encoder_output, hidden)"
      and de: "decode m ed (Some hidden) = Inr (decoder_output, h2)"
    by (rule forward_Inr)
  from encode_Inr [OF en] decode_Inr [OF de]
  show "\<exists>ee ed h c h' c'.
            lstm_encoder m ee (init_hidden m, init_hidden m) = Inr (encoder_output, (h, c))
          \<and> lstm_decoder m ed (h, h) = Inr (decoder_output, (h', c'))"
    by blast
qed

theorem lstm_initial_states_witness:
  "\<exists>ee ed h c h' c'.
      lstm_encoder example_model ee (init_hidden example_model, init_hidden example_model)
        = Inr (Tensor [1, 2, 1] [0, 0], (h, c))
    \<and> lstm_decoder example_model ed (h, h) = Inr (Tensor [2, 2, 1] [0, 0, 0, 0], (h', c'))"
  using lstm_initial_states [where m = example_model and x = example_batch] forward_example
  by blast

subsection \<open>The quantile loss and the operand of the maximum\<close>

text \<open>
  The loss returns on no input: a quantile outside the unit interval raises ValueError, and
  otherwise the subtraction or the first \<^verbatim>\<open>torch.max\<close> raises.
\<close>

lemma quantile_loss_never_returns: "pytorch_quantile_loss y y_pred quantile \<noteq> Inr r"
  by (auto simp: pytorch_quantile_loss_def torch_max_def elim!: ebindE)

text \<open>
  With a tensor of zeros as the operand of \<^verbatim>\<open>torch.max\<close>, the expression of the source is
  the pinball loss summed over the last axis, row by row.
\<close>

lemma sum_list_block:
  assumes "r * k + k \<le> length xs"
  shows "sum_list (block k r xs) = (\<Sum>j<k. (xs :: real list) ! (r * k + j))"
proof -
  have "block k r xs = map (\<lambda>j. xs ! (r * k + j)) [0..<k]"
    using assms by (auto simp: block_def intro!: nth_equalityI)
  then show ?thesis by (simp add: sum_list_sum_nth atLeast0LessThan)
qed

lemma quantile_loss_with_tensor_operand:
  assumes sh: "shape y = s @ [k]" "shape y_pred = s @ [k]"
    and wf: "wf_tensor y" "wf_tensor y_pred"
  shows "ebind (tsub y y_pred) (\<lambda>prediction_underflow.
        ebind (torch_max prediction_underflow (PyTensor (zeros (shape prediction_underflow)))) (\<lambda>m1.
        ebind (torch_max (tmap uminus prediction_underflow)
                 (PyTensor (zeros (shape prediction_underflow)))) (\<lambda>m2.
        ebind (tadd (tmap (\<lambda>v. q * v) m1) (tmap (\<lambda>v. (1 - q) * v) m2)) (\<lambda>q_loss.
        Inr (sum_last q_loss)))))
     = Inr (Tensor s (map (\<lambda>r. \<Sum>j<k. q * max (data y ! (r * k + j) - data y_pred ! (r * k + j)) 0
                                   + (1 - q) * max (data y_pred ! (r * k + j) - data y ! (r * k + j)) 0)
                        [0..<prod_list s]))"
proof -
  let ?n = "prod_list s * k"
  from wf sh have len: "length (data y) = ?n" "length (data y_pred) = ?n"
    by (simp_all add: wf_tensor_def)
  let ?f = "\<lambda>i. q * max (data y ! i - data y_pred ! i) 0 + (1 - q) * max (data y_pred ! i - data y ! i) 0"
  have data: "map2 (+) (map (\<lambda>v. q * v) (map2 max (map2 (-) (data y) (data y_pred)) (replicate ?n 0)))
                (map (\<lambda>v. (1 - q) * v) (map2 max (map uminus (map2 (-) (data y) (data y_pred))) (replicate ?n 0)))
              = map ?f [0..<?n]"
    by (rule nth_equalityI) (simp_all add: len)
  have rows: "sum_list (block k r (map ?f [0..<?n])) = (\<Sum>j<k. ?f (r * k + j))" if "r < prod_list s" for r
  proof -
    from that have "Suc r * k \<le> ?n" by (intro mult_le_mono1) simp
    then have le: "r * k + k \<le> length (map ?f [0..<?n])" by simp
    have "(\<Sum>j<k. map ?f [0..<?n] ! (r * k + j)) = (\<Sum>j<k. ?f (r * k + j))"
      using le by (intro sum.cong) simp_all
    with sum_list_block [OF le] show ?thesis by simp
  qed
  let ?d = "map2 (-) (data y) (data y_pred)"
  have pu: "tsub y y_pred = Inr (Tensor (s @ [k]) ?d)"
    by (simp add: tsub_def binop_def sh)
  have m1: "torch_max (Tensor (s @ [k]) ?d) (PyTensor (zeros (shape (Tensor (s @ [k]) ?d))))
              = Inr (Tensor (s @ [k]) (map2 max ?d (replicate ?n 0)))"
    by (simp add: torch_max_def binop_def zeros_def)
  have m2: "torch_max (tmap uminus (Tensor (s @ [k]) ?d)) (PyTensor (zeros (shape (Tensor (s @ [k]) ?d))))
              = Inr (Tensor (s @ [k]) (map2 max (map uminus ?d) (replicate ?n 0)))"
    by (simp add: torch_max_def binop_def zeros_def tmap_def)
  have add: "tadd (tmap (\<lambda>v. q * v) (Tensor (s @ [k]) (map2 max ?d (replicate ?n 0))))
                  (tmap (\<lambda>v. (1 - q) * v) (Tensor (s @ [k]) (map2 max (map uminus ?d) (replicate ?n 0))))
              = Inr (Tensor (s @ [k]) (map ?f [0..<?n]))"
    using data by (simp add: tadd_def binop_def tmap_def)
  have sum: "sum_last (Tensor (s @ [k]) (map ?f [0..<?n]))
               = Tensor s (map (\<lambda>r. \<Sum>j<k. ?f (r * k + j)) [0..<prod_list s])"
    using rows by (simp add: sum_last_def cong: map_cong)
  show ?thesis
    by (simp only: pu ebind_Inr m1 m2 add sum)
qed

end
